theory Spec2Isabelle
  imports Main "HOL-Library.Char_ord"
begin

section \<open>The environment of the command-line tool\<close>

text \<open>
  The commands of \<^verbatim>\<open>mangum_cli/commands.py\<close> act on the files of the working
  directory, on the console and on the cloud account behind the provider's SDK. A
  Python \<^verbatim>\<open>str\<close> is a \<open>string\<close> whose characters stand for one code point each;
  \<open>length\<close> is Python's \<^verbatim>\<open>len\<close>. The files are text files addressed by their path;
  the console is the list of the arguments of \<^verbatim>\<open>click.echo\<close>, oldest first.
\<close>

datatype yaml =
    YNull
  | YBool bool
  | YInt int
  | YStr string
  | YSeq "yaml list"
  | YMap "(string \<times> yaml) list"

datatype yaml_error = YAMLError string

datatype exn =
    IOError string
  | RuntimeError yaml_error
  | TypeError
  | ClientError string
  | OtherError string

record 'c world =
  cwd :: string
  files :: "string \<rightharpoonup> string"
  stdout :: "string list"
  cloud :: 'c

definition echo :: "string \<Rightarrow> 'c world \<Rightarrow> 'c world" where
  "echo s w = w\<lparr>stdout := stdout w @ [s]\<rparr>"

text \<open>\<^verbatim>\<open>os.path.join(a, b)\<close> of \<^verbatim>\<open>posixpath\<close>, for two components.\<close>

definition path_join :: "string \<Rightarrow> string \<Rightarrow> string" where
  "path_join a b =
     (if b \<noteq> [] \<and> hd b = CHR ''/'' then b
      else if a = [] \<or> last a = CHR ''/'' then a @ b
      else a @ ''/'' @ b)"

text \<open>\<^verbatim>\<open>open(p, "w")\<close> truncates or creates; \<^verbatim>\<open>open(p, "a")\<close> keeps what is there.\<close>

definition write_file :: "string \<Rightarrow> string \<Rightarrow> 'c world \<Rightarrow> 'c world" where
  "write_file p s w = w\<lparr>files := (files w)(p \<mapsto> s)\<rparr>"

definition append_file :: "string \<Rightarrow> string \<Rightarrow> 'c world \<Rightarrow> 'c world" where
  "append_file p s w =
     w\<lparr>files := (files w)(p \<mapsto> (case files w p of None \<Rightarrow> [] | Some old \<Rightarrow> old) @ s)\<rparr>"

section \<open>The project descriptor\<close>

text \<open>
  Modelled from the spec: the class \<^verbatim>\<open>Config\<close> of \<^verbatim>\<open>mangum_cli/config.py\<close> is not
  among the sources. The spec's data model gives its settings: stack name, code
  directory, handler path, storage bucket name, region, runtime identifier, websocket
  flag, timeout and the two access flags. \<^verbatim>\<open>Config(**config_data)\<close> binds each key of
  the loaded mapping to the setting of that name; Python refuses a value that is no
  mapping, an unknown keyword and a missing one with a \<^verbatim>\<open>TypeError\<close>. The settings
  hold whatever values the descriptor gave them.
\<close>

record Config =
  cfg_name :: yaml
  cfg_code_dir :: yaml
  cfg_handler :: yaml
  cfg_bucket_name :: yaml
  cfg_region_name :: yaml
  cfg_runtime :: yaml
  cfg_websockets :: yaml
  cfg_timeout :: yaml
  cfg_s3_access :: yaml
  cfg_dynamodb_access :: yaml

definition Config_fields :: "string list" where
  "Config_fields =
     [''name'', ''code_dir'', ''handler'', ''bucket_name'', ''region_name'', ''runtime'',
      ''websockets'', ''timeout'', ''s3_access'', ''dynamodb_access'']"

text \<open>
  Modelled from the spec: the constructor call \<^verbatim>\<open>Config(**config_data)\<close>, whose class
  is not among the sources. Each setting takes the value stored under its key.
\<close>

definition Config_init :: "yaml \<Rightarrow> exn + Config" where
  "Config_init config_data =
     (case config_data of
        YMap kvs \<Rightarrow>
          (if list_all (\<lambda>k. k \<in> set Config_fields) (map fst kvs) then
             (case those (map (map_of kvs) Config_fields) of
                Some [n, cd, h, b, r, rt, ws, t, s3, dd] \<Rightarrow>
                  Inr \<lparr>cfg_name = n, cfg_code_dir = cd, cfg_handler = h,
                       cfg_bucket_name = b, cfg_region_name = r, cfg_runtime = rt,
                       cfg_websockets = ws, cfg_timeout = t, cfg_s3_access = s3,
                       cfg_dynamodb_access = dd\<rparr>
              | _ \<Rightarrow> Inl TypeError)
           else Inl TypeError)
      | _ \<Rightarrow> Inl TypeError)"

text \<open>
  \<^verbatim>\<open>get_config\<close>. The YAML library is outside the repository: \<open>safe_load\<close> stands
  for \<^verbatim>\<open>yaml.safe_load\<close>, which returns the loaded value or raises a
  \<^verbatim>\<open>YAMLError\<close>. \<open>file_not_found\<close> is the \<^verbatim>\<open>IOError\<close> raised for a missing file,
  with the message of the f-string.
\<close>

definition file_not_found :: "string \<Rightarrow> exn" where
  "file_not_found config_file_path =
     IOError (''File not found: '' @ [CHR 0x27] @ config_file_path @ [CHR 0x27]
               @ '' does not exist.'')"

definition get_config :: "(string \<Rightarrow> yaml_error + yaml) \<Rightarrow> 'c world \<Rightarrow> exn + Config" where
  "get_config safe_load w =
     (let config_dir = cwd w;
          config_file_path = path_join config_dir ''mangum.yml''
      in case files w config_file_path of
           None \<Rightarrow> Inl (file_not_found config_file_path)
         | Some config_data \<Rightarrow>
             (case safe_load config_data of
                Inl exc \<Rightarrow> Inl (RuntimeError exc)
              | Inr loaded \<Rightarrow> Config_init loaded))"

section \<open>init\<close>

text \<open>
  The check of the stack name: \<^verbatim>\<open>re.compile(r'^[a-zA-Z][a-zA-Z-]+$').match(name)\<close>.
  \<^verbatim>\<open>match\<close> anchors at the start; Python's \<^verbatim>\<open>$\<close> matches at the end of the string
  and also just before a newline that ends it.
\<close>

definition ascii_letter :: "char \<Rightarrow> bool" where
  "ascii_letter c =
     ((CHR ''a'' \<le> c \<and> c \<le> CHR ''z'') \<or> (CHR ''A'' \<le> c \<and> c \<le> CHR ''Z''))"

definition letter_or_hyphen :: "char \<Rightarrow> bool" where
  "letter_or_hyphen c = (ascii_letter c \<or> c = CHR ''-'')"

definition stack_name_match :: "string \<Rightarrow> bool" where
  "stack_name_match nm =
     (let body = (if nm \<noteq> [] \<and> last nm = CHR 0x0A then butlast nm else nm)
      in case body of
           [] \<Rightarrow> False
         | c # cs \<Rightarrow> ascii_letter c \<and> cs \<noteq> [] \<and> list_all letter_or_hyphen cs)"

text \<open>The condition of the \<^verbatim>\<open>if\<close> that opens \<^verbatim>\<open>init\<close>.\<close>

definition stack_name_ok :: "string \<Rightarrow> bool" where
  "stack_name_ok nm = (stack_name_match nm \<and> length nm \<le> 128)"

definition warn :: "'c world \<Rightarrow> 'c world" where
  "warn w =
     echo ''''
      (echo ''(https://docs.aws.amazon.com/AWSCloudFormation/latest/UserGuide/cfn-using-console-create-stack-parameters.html)''
       (echo (''It must start with an alphabetic character and can'' @ [CHR 0x27]
                @ ''t be longer than 128 characters.'')
        (echo ''A stack name can contain only alphanumeric characters (case-sensitive) and hyphens.''
         (echo ''Illegal stack name.''
          (echo ''*** WARNING ***'' w)))))"

text \<open>The six lines of the warning, as the console shows them.\<close>

definition warning_lines :: "string list" where
  "warning_lines =
     [''*** WARNING ***'',
      ''Illegal stack name.'',
      ''A stack name can contain only alphanumeric characters (case-sensitive) and hyphens.'',
      ''It must start with an alphabetic character and can'' @ [CHR 0x27]
        @ ''t be longer than 128 characters.'',
      ''(https://docs.aws.amazon.com/AWSCloudFormation/latest/UserGuide/cfn-using-console-create-stack-parameters.html)'',
      []]"

definition opt_str :: "string option \<Rightarrow> yaml" where
  "opt_str v = (case v of None \<Rightarrow> YNull | Some s \<Rightarrow> YStr s)"

text \<open>The dictionary \<^verbatim>\<open>config\<close> that \<^verbatim>\<open>init\<close> builds, in the order of its keys.\<close>

definition descriptor ::
  "string \<Rightarrow> string option \<Rightarrow> string option \<Rightarrow> string option \<Rightarrow> bool \<Rightarrow> bool
     \<Rightarrow> (string \<times> yaml) list" where
  "descriptor nm bucket region rt s3 dynamodb =
     [(''name'', YStr nm),
      (''code_dir'', YStr ''app''),
      (''handler'', YStr ''asgi.handler''),
      (''bucket_name'', opt_str bucket),
      (''region_name'', opt_str region),
      (''runtime'', opt_str rt),
      (''websockets'', YBool False),
      (''timeout'', YInt 300),
      (''s3_access'', YBool s3),
      (''dynamodb_access'', YBool dynamodb)]"

text \<open>
  \<open>dump\<close> stands for \<^verbatim>\<open>yaml.dump(_, default_flow_style=False, sort_keys=False)\<close>
  on a dictionary.
\<close>

definition init ::
  "((string \<times> yaml) list \<Rightarrow> string) \<Rightarrow> string \<Rightarrow> string option \<Rightarrow> string option
     \<Rightarrow> string option \<Rightarrow> bool \<Rightarrow> bool \<Rightarrow> 'c world \<Rightarrow> 'c world" where
  "init dump nm bucket region rt s3 dynamodb w =
     (let w1 = (if stack_name_ok nm then w else warn w);
          w2 = echo ''Generating initial configuration...'' w1;
          config_dir = cwd w2;
          config = descriptor nm bucket region rt s3 dynamodb;
          w3 = write_file (path_join config_dir ''mangum.yml'') (dump config) w2;
          w4 = append_file (path_join config_dir ''requirements.txt'') ''mangum\<newline>'' w3
      in echo (''Configuration saved to: '' @ config_dir @ ''/mangum.yml'') w4)"

section \<open>The lifecycle commands\<close>

text \<open>
  The methods of \<^verbatim>\<open>Config\<close> (\<^verbatim>\<open>build\<close>, \<^verbatim>\<open>package\<close>, \<^verbatim>\<open>deploy\<close>,
  \<^verbatim>\<open>validate\<close>, \<^verbatim>\<open>delete\<close>, \<^verbatim>\<open>describe\<close>) are the collaborator the commands
  delegate to. A collaborator takes the call, the object and the world, and either raises
  or returns the object and the world as it left them. A run of a command is the list of
  the calls it made, oldest first, and how it ended.
\<close>

datatype lifecycle_call = Build bool | Package | Deploy | Validate | Delete | Describe

type_synonym 'c collaborator =
  "lifecycle_call \<Rightarrow> Config \<Rightarrow> 'c world \<Rightarrow> exn + (Config \<times> 'c world)"

type_synonym 'c run = "lifecycle_call list \<times> (exn + (Config \<times> 'c world))"

text \<open>\<^verbatim>\<open>config = get_config()\<close>: no call made yet.\<close>

definition load_config :: "(string \<Rightarrow> yaml_error + yaml) \<Rightarrow> 'c world \<Rightarrow> 'c run" where
  "load_config safe_load w =
     (case get_config safe_load w of
        Inl e \<Rightarrow> ([], Inl e)
      | Inr config \<Rightarrow> ([], Inr (config, w)))"

text \<open>One statement \<^verbatim>\<open>config.method(...)\<close>: skipped once an exception is under way.\<close>

definition invoke :: "'c collaborator \<Rightarrow> lifecycle_call \<Rightarrow> 'c run \<Rightarrow> 'c run" where
  "invoke m k r =
     (case r of
        (made, Inl e) \<Rightarrow> (made, Inl e)
      | (made, Inr (config, w)) \<Rightarrow> (made @ [k], m k config w))"

definition build ::
  "'c collaborator \<Rightarrow> (string \<Rightarrow> yaml_error + yaml) \<Rightarrow> bool \<Rightarrow> 'c world \<Rightarrow> 'c run" where
  "build m safe_load no_pip w = invoke m (Build no_pip) (load_config safe_load w)"

definition package ::
  "'c collaborator \<Rightarrow> (string \<Rightarrow> yaml_error + yaml) \<Rightarrow> 'c world \<Rightarrow> 'c run" where
  "package m safe_load w = invoke m Package (load_config safe_load w)"

definition deploy ::
  "'c collaborator \<Rightarrow> (string \<Rightarrow> yaml_error + yaml) \<Rightarrow> 'c world \<Rightarrow> 'c run" where
  "deploy m safe_load w = invoke m Describe (invoke m Deploy (load_config safe_load w))"

definition all_cmd ::
  "'c collaborator \<Rightarrow> (string \<Rightarrow> yaml_error + yaml) \<Rightarrow> bool \<Rightarrow> 'c world \<Rightarrow> 'c run" where
  "all_cmd m safe_load no_pip w =
     invoke m Describe
      (invoke m Deploy
       (invoke m Package
        (invoke m (Build no_pip) (load_config safe_load w))))"

definition validate ::
  "'c collaborator \<Rightarrow> (string \<Rightarrow> yaml_error + yaml) \<Rightarrow> 'c world \<Rightarrow> 'c run" where
  "validate m safe_load w = invoke m Validate (load_config safe_load w)"

definition delete ::
  "'c collaborator \<Rightarrow> (string \<Rightarrow> yaml_error + yaml) \<Rightarrow> 'c world \<Rightarrow> 'c run" where
  "delete m safe_load w = invoke m Delete (load_config safe_load w)"

definition describe ::
  "'c collaborator \<Rightarrow> (string \<Rightarrow> yaml_error + yaml) \<Rightarrow> 'c world \<Rightarrow> 'c run" where
  "describe m safe_load w = invoke m Describe (load_config safe_load w)"

section \<open>create\_bucket\<close>

text \<open>
  \<open>s3\<close> stands for \<^verbatim>\<open>s3_client.create_bucket(Bucket=_, CreateBucketConfiguration=
  {"LocationConstraint": _})\<close>: it leaves the cloud account in some state and returns, or
  raises. \<open>uuid4\<close> is the text of the identifier \<^verbatim>\<open>uuid.uuid4()\<close> drew, and
  \<open>default_region\<close> what \<^verbatim>\<open>get_default_region_name()\<close> returns, the session's
  region or \<^verbatim>\<open>None\<close>. The run of the command is the list of the creation calls it
  made, each with its bucket name and region, and how it ended. Building the client,
  \<^verbatim>\<open>boto3.client("s3")\<close>, is taken to succeed.
\<close>

type_synonym 'c s3_client = "string \<Rightarrow> string option \<Rightarrow> 'c \<Rightarrow> exn option \<times> 'c"

fun client_error :: "exn \<Rightarrow> string option" where
  "client_error (ClientError msg) = Some msg"
| "client_error _ = None"

text \<open>How an f-string shows a value that is a string or \<^verbatim>\<open>None\<close>.\<close>

definition fmt :: "string option \<Rightarrow> string" where
  "fmt v = (case v of None \<Rightarrow> ''None'' | Some s \<Rightarrow> s)"

text \<open>\<^verbatim>\<open>not v\<close> for a value that is a string or \<^verbatim>\<open>None\<close>.\<close>

definition falsy :: "string option \<Rightarrow> bool" where
  "falsy v = (case v of None \<Rightarrow> True | Some s \<Rightarrow> s = [])"

definition create_bucket ::
  "'c s3_client \<Rightarrow> string \<Rightarrow> string option \<Rightarrow> string option \<Rightarrow> string option \<Rightarrow> 'c world
     \<Rightarrow> (string \<times> string option) list \<times> (exn + 'c world)" where
  "create_bucket s3 uuid4 default_region bucket region w =
     (let (bucket_name, w1) =
            (if falsy bucket
             then (Some (''mangum-'' @ uuid4),
                   echo ''No bucket name provided, one will be generated.'' w)
             else (bucket, w));
          (region_name, w2) =
            (if falsy region
             then (default_region, echo ''No region specified, using default.'' w1)
             else (region, w1))
      in case s3 (fmt bucket_name) region_name (cloud w2) of
           (Some exc, c) \<Rightarrow>
             (case client_error exc of
                Some msg \<Rightarrow> ([(fmt bucket_name, region_name)], Inr (echo msg (w2\<lparr>cloud := c\<rparr>)))
              | None \<Rightarrow> ([(fmt bucket_name, region_name)], Inl exc))
         | (None, c) \<Rightarrow>
             ([(fmt bucket_name, region_name)],
              Inr (echo (''Bucket name:\<newline>'' @ fmt bucket_name @ ''\<newline>Region name:\<newline>''
                         @ fmt region_name)
                    (w2\<lparr>cloud := c\<rparr>))))"

text \<open>
  What \<^verbatim>\<open>create_bucket\<close> has settled on when it reaches the creation call: the
  bucket name, the region, and the notices printed on the way.
\<close>

definition bucket_used :: "string \<Rightarrow> string option \<Rightarrow> string" where
  "bucket_used uuid4 bucket = (if falsy bucket then ''mangum-'' @ uuid4 else fmt bucket)"

definition region_used :: "string option \<Rightarrow> string option \<Rightarrow> string option" where
  "region_used default_region region = (if falsy region then default_region else region)"

definition notices :: "string option \<Rightarrow> string option \<Rightarrow> string list" where
  "notices bucket region =
     (if falsy bucket then [''No bucket name provided, one will be generated.''] else [])
     @ (if falsy region then [''No region specified, using default.''] else [])"

section \<open>Running init again\<close>

text \<open>\<^verbatim>\<open>init\<close> run \<open>n\<close> times in a row with the same arguments.\<close>

definition init_times ::
  "nat \<Rightarrow> ((string \<times> yaml) list \<Rightarrow> string) \<Rightarrow> string \<Rightarrow> string option \<Rightarrow> string option
     \<Rightarrow> string option \<Rightarrow> bool \<Rightarrow> bool \<Rightarrow> 'c world \<Rightarrow> 'c world" where
  "init_times n dump nm bucket region rt s3 dynamodb w =
     ((init dump nm bucket region rt s3 dynamodb) ^^ n) w"

section \<open>The rule for stack names as the warning words it\<close>

text \<open>
  The warning that \<^verbatim>\<open>init\<close> prints, and the spec with it, give the rule in words: a
  stack name contains only alphanumeric characters and hyphens, starts with an
  alphabetic character and is at most 128 characters long.
\<close>

definition ascii_digit :: "char \<Rightarrow> bool" where
  "ascii_digit c = (CHR ''0'' \<le> c \<and> c \<le> CHR ''9'')"

definition worded_stack_name_rule :: "string \<Rightarrow> bool" where
  "worded_stack_name_rule nm =
     (list_all (\<lambda>c. ascii_letter c \<or> ascii_digit c \<or> c = CHR ''-'') nm
      \<and> (case nm of [] \<Rightarrow> False | c # cs \<Rightarrow> ascii_letter c)
      \<and> length nm \<le> 128)"

section \<open>Sample inputs\<close>

text \<open>
  The inputs of the examples below. Two descriptors with the text PyYAML writes for
  them, a text it refuses, a project directory, a collaborator whose methods all
  return, and an account that refuses a bucket name already taken.
\<close>

definition demo_descriptor :: "(string \<times> yaml) list" where
  "demo_descriptor = descriptor ''demo-app'' None None (Some ''python3.7'') True True"

definition demo_text :: string where
  "demo_text =
     ''name: demo-app\<newline>code_dir: app\<newline>handler: asgi.handler\<newline>''
     @ ''bucket_name: null\<newline>region_name: null\<newline>runtime: python3.7\<newline>''
     @ ''websockets: false\<newline>timeout: 300\<newline>s3_access: true\<newline>''
     @ ''dynamodb_access: true\<newline>''"

definition app2_descriptor :: "(string \<times> yaml) list" where
  "app2_descriptor =
     descriptor ''app2'' (Some ''builds'') (Some ''eu-west-1'') (Some ''python3.7'') True False"

definition app2_text :: string where
  "app2_text =
     ''name: app2\<newline>code_dir: app\<newline>handler: asgi.handler\<newline>''
     @ ''bucket_name: builds\<newline>region_name: eu-west-1\<newline>runtime: python3.7\<newline>''
     @ ''websockets: false\<newline>timeout: 300\<newline>s3_access: true\<newline>''
     @ ''dynamodb_access: false\<newline>''"

definition sample_dump :: "(string \<times> yaml) list \<Rightarrow> string" where
  "sample_dump d =
     (if d = demo_descriptor then demo_text
      else if d = app2_descriptor then app2_text
      else ''{}\<newline>'')"

definition broken_text :: string where
  "broken_text = ''name: [demo-app\<newline>''"

definition sample_safe_load :: "string \<Rightarrow> yaml_error + yaml" where
  "sample_safe_load t =
     (if t = demo_text then Inr (YMap demo_descriptor)
      else if t = app2_text then Inr (YMap app2_descriptor)
      else if t = broken_text then Inl (YAMLError ''while parsing a flow sequence'')
      else Inr (YStr t))"

definition project :: "string list world" where
  "project =
     \<lparr>cwd = ''/srv/demo'',
      files = [''/srv/demo/requirements.txt'' \<mapsto> ''click\<newline>'',
               ''/srv/demo/app/asgi.py'' \<mapsto> ''handler = None\<newline>''],
      stdout = [],
      cloud = [''builds'']\<rparr>"

definition returns :: "'c collaborator" where
  "returns k config w = Inr (config, w)"

definition sample_s3 :: "string list s3_client" where
  "sample_s3 b r buckets =
     (if b \<in> set buckets then (Some (ClientError ''BucketAlreadyExists''), buckets)
      else (None, buckets @ [b]))"

text \<open>The project directory with a descriptor PyYAML refuses, and with a sound one.\<close>

definition broken_project :: "string list world" where
  "broken_project = write_file ''/srv/demo/mangum.yml'' broken_text project"

definition demo_project :: "string list world" where
  "demo_project = write_file ''/srv/demo/mangum.yml'' demo_text project"

definition demo_config :: Config where
  "demo_config =
     \<lparr>cfg_name = YStr ''demo-app'', cfg_code_dir = YStr ''app'',
      cfg_handler = YStr ''asgi.handler'', cfg_bucket_name = YNull,
      cfg_region_name = YNull, cfg_runtime = YStr ''python3.7'',
      cfg_websockets = YBool False, cfg_timeout = YInt 300, cfg_s3_access = YBool True,
      cfg_dynamodb_access = YBool True\<rparr>"

section \<open>What init leaves behind\<close>

lemma path_join_distinct: "path_join a ''mangum.yml'' \<noteq> path_join a ''requirements.txt''"
  by (simp add: path_join_def)

lemma cwd_init: "cwd (init dump nm b r rt s3 dd w) = cwd w"
  by (simp add: init_def Let_def echo_def write_file_def append_file_def warn_def)

lemma files_init:
  "files (init dump nm b r rt s3 dd w) =
     (files w)(path_join (cwd w) ''mangum.yml'' \<mapsto> dump (descriptor nm b r rt s3 dd),
               path_join (cwd w) ''requirements.txt'' \<mapsto>
                 (case files w (path_join (cwd w) ''requirements.txt'') of
                    None \<Rightarrow> [] | Some old \<Rightarrow> old) @ ''mangum\<newline>'')"
  using path_join_distinct [of "cwd w"]
  by (simp add: init_def Let_def echo_def write_file_def append_file_def warn_def)

lemma Config_init_descriptor:
  "Config_init (YMap (descriptor nm b r rt s3 dd)) =
     Inr \<lparr>cfg_name = YStr nm, cfg_code_dir = YStr ''app'', cfg_handler = YStr ''asgi.handler'',
          cfg_bucket_name = opt_str b, cfg_region_name = opt_str r, cfg_runtime = opt_str rt,
          cfg_websockets = YBool False, cfg_timeout = YInt 300, cfg_s3_access = YBool s3,
          cfg_dynamodb_access = YBool dd\<rparr>"
  by (simp add: Config_init_def descriptor_def Config_fields_def)

lemma stdout_warn: "stdout (warn w) = stdout w @ warning_lines"
  by (simp add: warn_def echo_def warning_lines_def)

lemma cwd_warn: "cwd (warn w) = cwd w"
  by (simp add: warn_def echo_def)

lemma stdout_init:
  "stdout (init dump nm b r rt s3 dd w) =
     stdout w @ (if stack_name_ok nm then [] else warning_lines)
       @ [''Generating initial configuration...'',
          ''Configuration saved to: '' @ cwd w @ ''/mangum.yml'']"
  by (simp add: init_def Let_def echo_def write_file_def append_file_def stdout_warn cwd_warn)

lemma cwd_init_times: "cwd (init_times n dump nm b r rt s3 dd w) = cwd w"
  by (induction n) (simp_all add: init_times_def cwd_init)

lemma init_times_Suc:
  "init_times (Suc n) dump nm b r rt s3 dd w =
     init dump nm b r rt s3 dd (init_times n dump nm b r rt s3 dd w)"
  by (simp add: init_times_def)

lemma concat_replicate_snoc: "concat (replicate n xs) @ xs = xs @ concat (replicate n xs)"
  by (induction n) simp_all

lemma project_cwd: "cwd project = ''/srv/demo''"
  by (simp add: project_def)

lemma project_stdout: "stdout project = []"
  by (simp add: project_def)

lemma demo_mangum_path: "path_join ''/srv/demo'' ''mangum.yml'' = ''/srv/demo/mangum.yml''"
  by (simp add: path_join_def)

lemma demo_requirements_path:
  "path_join ''/srv/demo'' ''requirements.txt'' = ''/srv/demo/requirements.txt''"
  by (simp add: path_join_def)

lemma dump_app2:
  "sample_dump (descriptor ''app2'' (Some ''builds'') (Some ''eu-west-1'') (Some ''python3.7'')
     True False) = app2_text"
  by (simp add: sample_dump_def app2_descriptor_def demo_descriptor_def descriptor_def)

lemma project_requirements:
  "files project ''/srv/demo/requirements.txt'' = Some ''click\<newline>''"
  by (simp add: project_def)

lemma dump_demo:
  "sample_dump (descriptor ''demo-app'' None None (Some ''python3.7'') True True) = demo_text"
  by (simp add: sample_dump_def demo_descriptor_def)

lemma requirements_init_times:
  "files (init_times (Suc n) dump nm b r rt s3 dd w) (path_join (cwd w) ''requirements.txt'') =
     Some ((case files w (path_join (cwd w) ''requirements.txt'') of
              None \<Rightarrow> [] | Some old \<Rightarrow> old) @ concat (replicate (Suc n) ''mangum\<newline>''))"
proof (induction n)
  case 0
  show ?case by (simp add: init_times_def files_init)
next
  case (Suc n)
  have "files (init_times (Suc (Suc n)) dump nm b r rt s3 dd w)
          (path_join (cwd w) ''requirements.txt'') =
        Some ((case files (init_times (Suc n) dump nm b r rt s3 dd w)
                      (path_join (cwd w) ''requirements.txt'') of
                 None \<Rightarrow> [] | Some old \<Rightarrow> old) @ ''mangum\<newline>'')"
    by (simp only: init_times_Suc [of "Suc n"] files_init cwd_init_times fun_upd_same)
  also have "\<dots> = Some (((case files w (path_join (cwd w) ''requirements.txt'') of
              None \<Rightarrow> [] | Some old \<Rightarrow> old) @ concat (replicate (Suc n) ''mangum\<newline>''))
              @ ''mangum\<newline>'')"
    by (simp only: Suc.IH option.case)
  also have "\<dots> = Some ((case files w (path_join (cwd w) ''requirements.txt'') of
              None \<Rightarrow> [] | Some old \<Rightarrow> old) @ concat (replicate (Suc (Suc n)) ''mangum\<newline>''))"
    using concat_replicate_snoc [of "Suc n" "''mangum\<newline>''"]
    by (simp only: append_assoc replicate.simps concat.simps)
  finally show ?case .
qed

lemma descriptor_init_times:
  "files (init_times (Suc n) dump nm b r rt s3 dd w) (path_join (cwd w) ''mangum.yml'') =
     Some (dump (descriptor nm b r rt s3 dd))"
  using path_join_distinct [of "cwd w"]
  by (simp add: init_times_Suc files_init cwd_init_times)

section \<open>Loading the descriptor and delegating\<close>

lemma get_config_missing:
  assumes "files w (path_join (cwd w) ''mangum.yml'') = None"
  shows "get_config safe_load w = Inl (file_not_found (path_join (cwd w) ''mangum.yml''))"
  using assms by (simp add: get_config_def Let_def)

lemma invoke_raised: "invoke m k (made, Inl e) = (made, Inl e)"
  by (simp add: invoke_def)

lemma invoke_loaded: "invoke m k (made, Inr (config, w)) = (made @ [k], m k config w)"
  by (simp add: invoke_def)

lemma load_config_raised:
  "get_config safe_load w = Inl e \<Longrightarrow> load_config safe_load w = ([], Inl e)"
  by (simp add: load_config_def)

lemma load_config_loaded:
  "get_config safe_load w = Inr config \<Longrightarrow> load_config safe_load w = ([], Inr (config, w))"
  by (simp add: load_config_def)

lemmas command_defs =
  build_def package_def deploy_def all_cmd_def validate_def delete_def describe_def

lemma project_no_descriptor: "files project ''/srv/demo/mangum.yml'' = None"
  by (simp add: project_def)

lemma broken_project_cwd: "cwd broken_project = ''/srv/demo''"
  by (simp add: broken_project_def write_file_def project_def)

lemma broken_project_descriptor: "files broken_project ''/srv/demo/mangum.yml'' = Some broken_text"
  by (simp add: broken_project_def write_file_def)

lemma load_broken: "sample_safe_load broken_text = Inl (YAMLError ''while parsing a flow sequence'')"
  by (simp add: sample_safe_load_def broken_text_def demo_text_def app2_text_def)

lemma demo_project_cwd: "cwd demo_project = ''/srv/demo''"
  by (simp add: demo_project_def write_file_def project_def)

lemma demo_project_descriptor: "files demo_project ''/srv/demo/mangum.yml'' = Some demo_text"
  by (simp add: demo_project_def write_file_def)

lemma load_demo: "sample_safe_load demo_text = Inr (YMap demo_descriptor)"
  by (simp add: sample_safe_load_def)

lemma get_config_demo: "get_config sample_safe_load demo_project = Inr demo_config"
  by (simp add: get_config_def Let_def demo_project_cwd demo_mangum_path demo_project_descriptor
      load_demo demo_descriptor_def Config_init_descriptor demo_config_def opt_str_def)

section \<open>The creation call of create\_bucket\<close>

lemma create_bucket_unfold:
  "create_bucket s3 uuid4 default_region bucket region w =
     (case s3 (bucket_used uuid4 bucket) (region_used default_region region) (cloud w) of
        (Some exc, c) \<Rightarrow>
          (case client_error exc of
             Some msg \<Rightarrow>
               ([(bucket_used uuid4 bucket, region_used default_region region)],
                Inr (w\<lparr>stdout := stdout w @ notices bucket region @ [msg], cloud := c\<rparr>))
           | None \<Rightarrow>
               ([(bucket_used uuid4 bucket, region_used default_region region)], Inl exc))
      | (None, c) \<Rightarrow>
          ([(bucket_used uuid4 bucket, region_used default_region region)],
           Inr (w\<lparr>stdout := stdout w @ notices bucket region
                    @ [''Bucket name:\<newline>'' @ bucket_used uuid4 bucket @ ''\<newline>Region name:\<newline>''
                        @ fmt (region_used default_region region)], cloud := c\<rparr>)))"
proof (cases "falsy bucket")
  case True
  show ?thesis
  proof (cases "falsy region")
    case True
    with \<open>falsy bucket\<close> show ?thesis
      by (simp add: create_bucket_def bucket_used_def region_used_def notices_def echo_def
          fmt_def split: prod.splits option.splits)
  next
    case False
    with \<open>falsy bucket\<close> show ?thesis
      by (simp add: create_bucket_def bucket_used_def region_used_def notices_def echo_def
          fmt_def split: prod.splits option.splits)
  qed
next
  case False
  show ?thesis
  proof (cases "falsy region")
    case True
    with \<open>\<not> falsy bucket\<close> show ?thesis
      by (simp add: create_bucket_def bucket_used_def region_used_def notices_def echo_def
          split: prod.splits option.splits)
  next
    case False
    with \<open>\<not> falsy bucket\<close> show ?thesis
      by (simp add: create_bucket_def bucket_used_def region_used_def notices_def echo_def
          split: prod.splits option.splits)
  qed
qed

section \<open>The claims\<close>

text \<open>
  C1. Whenever the YAML library loads the text it dumped for the descriptor back as
  that descriptor, \<^verbatim>\<open>get_config\<close> run after \<^verbatim>\<open>init\<close> in the same directory returns
  a \<^verbatim>\<open>Config\<close> whose name, bucket name, region name, runtime and access flags are
  the values given to \<^verbatim>\<open>init\<close>, and whose other settings are the ones
  \<^verbatim>\<open>init\<close> fixes.
\<close>

theorem init_get_config_roundtrip:
  assumes "safe_load (dump (descriptor nm b r rt s3 dd)) = Inr (YMap (descriptor nm b r rt s3 dd))"
  shows "get_config safe_load (init dump nm b r rt s3 dd w) =
     Inr \<lparr>cfg_name = YStr nm, cfg_code_dir = YStr ''app'', cfg_handler = YStr ''asgi.handler'',
          cfg_bucket_name = opt_str b, cfg_region_name = opt_str r, cfg_runtime = opt_str rt,
          cfg_websockets = YBool False, cfg_timeout = YInt 300, cfg_s3_access = YBool s3,
          cfg_dynamodb_access = YBool dd\<rparr>"
  using assms path_join_distinct [of "cwd w"]
  by (simp add: get_config_def Let_def cwd_init files_init Config_init_descriptor)

theorem init_get_config_roundtrip_witness:
  "get_config sample_safe_load
     (init sample_dump ''demo-app'' None None (Some ''python3.7'') True True project) =
     Inr \<lparr>cfg_name = YStr ''demo-app'', cfg_code_dir = YStr ''app'',
          cfg_handler = YStr ''asgi.handler'', cfg_bucket_name = YNull,
          cfg_region_name = YNull, cfg_runtime = YStr ''python3.7'',
          cfg_websockets = YBool False, cfg_timeout = YInt 300, cfg_s3_access = YBool True,
          cfg_dynamodb_access = YBool True\<rparr>"
  using init_get_config_roundtrip [of sample_safe_load sample_dump "''demo-app''" None None
      "Some ''python3.7''" True True project]
  by (simp add: sample_safe_load_def sample_dump_def demo_descriptor_def opt_str_def)

text \<open>
  C2. For a name that fails the pattern or is longer than 128 characters,
  \<^verbatim>\<open>init\<close> prints the six lines of the warning before its two usual messages and
  still writes the descriptor to \<^verbatim>\<open>mangum.yml\<close>: the failed check stops nothing.
\<close>

theorem init_warns_and_still_writes:
  assumes "\<not> stack_name_match nm \<or> 128 < length nm"
  shows "stdout (init dump nm b r rt s3 dd w) =
           stdout w @ warning_lines
             @ [''Generating initial configuration...'',
                ''Configuration saved to: '' @ cwd w @ ''/mangum.yml'']
         \<and> files (init dump nm b r rt s3 dd w) (path_join (cwd w) ''mangum.yml'') =
             Some (dump (descriptor nm b r rt s3 dd))"
proof -
  from assms have "\<not> stack_name_ok nm"
    by (auto simp: stack_name_ok_def)
  then show ?thesis
    using path_join_distinct [of "cwd w"] by (simp add: stdout_init files_init)
qed

theorem init_warns_and_still_writes_witness:
  "stdout (init sample_dump ''app2'' (Some ''builds'') (Some ''eu-west-1'') (Some ''python3.7'')
             True False project) =
     warning_lines
       @ [''Generating initial configuration...'',
          ''Configuration saved to: /srv/demo/mangum.yml'']
   \<and> files (init sample_dump ''app2'' (Some ''builds'') (Some ''eu-west-1'') (Some ''python3.7'')
              True False project) ''/srv/demo/mangum.yml'' = Some app2_text"
proof -
  have bad: "\<not> stack_name_match ''app2'' \<or> 128 < length ''app2''"
    by (simp add: stack_name_match_def ascii_letter_def letter_or_hyphen_def)
  show ?thesis
    using init_warns_and_still_writes [OF bad, of sample_dump "Some ''builds''" "Some ''eu-west-1''"
        "Some ''python3.7''" True False project]
    by (simp only: project_cwd project_stdout demo_mangum_path dump_app2 append_Nil) simp
qed

text \<open>
  C3. When \<^verbatim>\<open>mangum.yml\<close> is not in the working directory, \<^verbatim>\<open>get_config\<close> raises
  the \<^verbatim>\<open>IOError\<close> for the missing file, and each of \<^verbatim>\<open>build\<close>, \<^verbatim>\<open>package\<close>,
  \<^verbatim>\<open>deploy\<close>, \<^verbatim>\<open>all\<close>, \<^verbatim>\<open>validate\<close>, \<^verbatim>\<open>delete\<close> and \<^verbatim>\<open>describe\<close> ends with
  that error having made no call to a method of \<^verbatim>\<open>Config\<close>.
\<close>

theorem missing_descriptor_no_call:
  assumes "files w (path_join (cwd w) ''mangum.yml'') = None"
  shows "get_config safe_load w = Inl (file_not_found (path_join (cwd w) ''mangum.yml''))
         \<and> build m safe_load no_pip w = ([], Inl (file_not_found (path_join (cwd w) ''mangum.yml'')))
         \<and> package m safe_load w = ([], Inl (file_not_found (path_join (cwd w) ''mangum.yml'')))
         \<and> deploy m safe_load w = ([], Inl (file_not_found (path_join (cwd w) ''mangum.yml'')))
         \<and> all_cmd m safe_load no_pip w = ([], Inl (file_not_found (path_join (cwd w) ''mangum.yml'')))
         \<and> validate m safe_load w = ([], Inl (file_not_found (path_join (cwd w) ''mangum.yml'')))
         \<and> delete m safe_load w = ([], Inl (file_not_found (path_join (cwd w) ''mangum.yml'')))
         \<and> describe m safe_load w = ([], Inl (file_not_found (path_join (cwd w) ''mangum.yml'')))"
proof -
  have g: "get_config safe_load w = Inl (file_not_found (path_join (cwd w) ''mangum.yml''))"
    using assms by (rule get_config_missing)
  have l: "load_config safe_load w = ([], Inl (file_not_found (path_join (cwd w) ''mangum.yml'')))"
    using g by (rule load_config_raised)
  show ?thesis
    by (simp only: g l command_defs invoke_raised simp_thms)
qed

theorem missing_descriptor_no_call_witness:
  "get_config sample_safe_load project = Inl (file_not_found ''/srv/demo/mangum.yml'')
   \<and> deploy returns sample_safe_load project = ([], Inl (file_not_found ''/srv/demo/mangum.yml''))
   \<and> all_cmd returns sample_safe_load False project =
       ([], Inl (file_not_found ''/srv/demo/mangum.yml''))"
  using missing_descriptor_no_call [of project sample_safe_load returns False]
  by (simp only: project_cwd demo_mangum_path project_no_descriptor)

text \<open>
  C6. When \<^verbatim>\<open>mangum.yml\<close> is there and the YAML library refuses its text with a
  \<^verbatim>\<open>YAMLError\<close>, \<^verbatim>\<open>get_config\<close> raises a \<^verbatim>\<open>RuntimeError\<close> that carries that
  error, and so does every lifecycle command, before any call to \<^verbatim>\<open>Config\<close>.
\<close>

theorem malformed_descriptor_wrapped:
  assumes "files w (path_join (cwd w) ''mangum.yml'') = Some config_data"
    and "safe_load config_data = Inl exc"
  shows "get_config safe_load w = Inl (RuntimeError exc)
         \<and> build m safe_load no_pip w = ([], Inl (RuntimeError exc))
         \<and> package m safe_load w = ([], Inl (RuntimeError exc))
         \<and> deploy m safe_load w = ([], Inl (RuntimeError exc))
         \<and> all_cmd m safe_load no_pip w = ([], Inl (RuntimeError exc))
         \<and> validate m safe_load w = ([], Inl (RuntimeError exc))
         \<and> delete m safe_load w = ([], Inl (RuntimeError exc))
         \<and> describe m safe_load w = ([], Inl (RuntimeError exc))"
proof -
  have g: "get_config safe_load w = Inl (RuntimeError exc)"
    using assms by (simp add: get_config_def Let_def)
  have l: "load_config safe_load w = ([], Inl (RuntimeError exc))"
    using g by (rule load_config_raised)
  show ?thesis
    by (simp only: g l command_defs invoke_raised simp_thms)
qed

theorem malformed_descriptor_wrapped_witness:
  "get_config sample_safe_load broken_project =
     Inl (RuntimeError (YAMLError ''while parsing a flow sequence''))
   \<and> build returns sample_safe_load True broken_project =
       ([], Inl (RuntimeError (YAMLError ''while parsing a flow sequence'')))
   \<and> describe returns sample_safe_load broken_project =
       ([], Inl (RuntimeError (YAMLError ''while parsing a flow sequence'')))"
  using malformed_descriptor_wrapped [of broken_project broken_text sample_safe_load
      "YAMLError ''while parsing a flow sequence''" returns True]
  by (simp only: broken_project_cwd demo_mangum_path broken_project_descriptor load_broken)

text \<open>
  C9. \<^verbatim>\<open>init\<close> leaves \<^verbatim>\<open>requirements.txt\<close> holding what it held before (nothing,
  when it was not there) followed by the one line \<^verbatim>\<open>mangum\<close>, and leaves every file
  other than \<^verbatim>\<open>mangum.yml\<close> and \<^verbatim>\<open>requirements.txt\<close> as it was.
\<close>

theorem init_appends_requirement:
  "files (init dump nm b r rt s3 dd w) (path_join (cwd w) ''requirements.txt'') =
     Some ((case files w (path_join (cwd w) ''requirements.txt'') of
              None \<Rightarrow> [] | Some old \<Rightarrow> old) @ ''mangum\<newline>'')
   \<and> (\<forall>p. p \<noteq> path_join (cwd w) ''mangum.yml'' \<longrightarrow> p \<noteq> path_join (cwd w) ''requirements.txt''
          \<longrightarrow> files (init dump nm b r rt s3 dd w) p = files w p)"
  by (simp add: files_init)

theorem init_appends_requirement_witness:
  "files (init sample_dump ''demo-app'' None None (Some ''python3.7'') True True project)
     ''/srv/demo/requirements.txt'' = Some ''click\<newline>mangum\<newline>''
   \<and> files (init sample_dump ''demo-app'' None None (Some ''python3.7'') True True project)
       ''/srv/demo/app/asgi.py'' = Some ''handler = None\<newline>''"
  using init_appends_requirement [of sample_dump "''demo-app''" None None "Some ''python3.7''"
      True True project]
  by (simp add: project_def path_join_def)

text \<open>
  C10. After \<open>n \<ge> 1\<close> runs of \<^verbatim>\<open>init\<close> with the same arguments, \<^verbatim>\<open>mangum.yml\<close>
  is the file a single run writes, and \<^verbatim>\<open>requirements.txt\<close> is what it held at the
  start followed by \<open>n\<close> lines \<^verbatim>\<open>mangum\<close>.
\<close>

theorem init_repeated:
  assumes "1 \<le> n"
  shows "files (init_times n dump nm b r rt s3 dd w) (path_join (cwd w) ''mangum.yml'') =
           files (init dump nm b r rt s3 dd w) (path_join (cwd w) ''mangum.yml'')
         \<and> files (init_times n dump nm b r rt s3 dd w) (path_join (cwd w) ''requirements.txt'') =
           Some ((case files w (path_join (cwd w) ''requirements.txt'') of
                    None \<Rightarrow> [] | Some old \<Rightarrow> old) @ concat (replicate n ''mangum\<newline>''))"
proof -
  from assms obtain k where n: "n = Suc k"
    by (cases n) simp_all
  have "files (init dump nm b r rt s3 dd w) (path_join (cwd w) ''mangum.yml'') =
          Some (dump (descriptor nm b r rt s3 dd))"
    using path_join_distinct [of "cwd w"] by (simp add: files_init)
  then show ?thesis
    unfolding n by (simp only: descriptor_init_times requirements_init_times simp_thms)
qed

theorem init_repeated_witness:
  "files (init_times 3 sample_dump ''demo-app'' None None (Some ''python3.7'') True True project)
     ''/srv/demo/mangum.yml'' = Some demo_text
   \<and> files (init_times 3 sample_dump ''demo-app'' None None (Some ''python3.7'') True True project)
       ''/srv/demo/requirements.txt'' = Some ''click\<newline>mangum\<newline>mangum\<newline>mangum\<newline>''"
proof -
  have n: "1 \<le> (3::nat)" by simp
  have once: "files (init sample_dump ''demo-app'' None None (Some ''python3.7'') True True project)
      ''/srv/demo/mangum.yml'' = Some demo_text"
    by (simp add: files_init project_cwd demo_mangum_path demo_requirements_path dump_demo)
  have three: "concat (replicate 3 ''mangum\<newline>'') = ''mangum\<newline>mangum\<newline>mangum\<newline>''"
    by (simp add: numeral_3_eq_3)
  show ?thesis
    using init_repeated [OF n, of sample_dump "''demo-app''" None None "Some ''python3.7''"
        True True project]
    by (simp only: project_cwd demo_mangum_path demo_requirements_path once
        project_requirements three option.case) simp
qed



text \<open>
  C5, at the names where the check of \<^verbatim>\<open>init\<close> and the rule in words part: the
  check refuses \<^verbatim>\<open>app2\<close> and \<^verbatim>\<open>a\<close>, which the rule allows, and passes a name
  that ends in a newline, which the rule does not allow.
\<close>

theorem stack_name_check_differs:
  "worded_stack_name_rule ''app2'' \<and> \<not> stack_name_ok ''app2''
   \<and> worded_stack_name_rule ''a'' \<and> \<not> stack_name_ok ''a''
   \<and> stack_name_ok ''ab\<newline>'' \<and> \<not> worded_stack_name_rule ''ab\<newline>''"
  by (simp add: worded_stack_name_rule_def stack_name_ok_def stack_name_match_def
      ascii_letter_def ascii_digit_def letter_or_hyphen_def)

text \<open>
  C7. When the creation call raises a \<^verbatim>\<open>ClientError\<close>, \<^verbatim>\<open>create_bucket\<close> has made
  that one call, returns normally, and has printed after its notices the error and
  nothing else; when the call returns, it has printed after its notices the message
  with the bucket name and the region.
\<close>

theorem create_bucket_client_error:
  "(s3 (bucket_used uuid4 bucket) (region_used default_region region) (cloud w) =
      (Some (ClientError msg), c) \<longrightarrow>
    create_bucket s3 uuid4 default_region bucket region w =
      ([(bucket_used uuid4 bucket, region_used default_region region)],
       Inr (w\<lparr>stdout := stdout w @ notices bucket region @ [msg], cloud := c\<rparr>)))
   \<and> (s3 (bucket_used uuid4 bucket) (region_used default_region region) (cloud w) =
        (None, c) \<longrightarrow>
      create_bucket s3 uuid4 default_region bucket region w =
        ([(bucket_used uuid4 bucket, region_used default_region region)],
         Inr (w\<lparr>stdout := stdout w @ notices bucket region
                  @ [''Bucket name:\<newline>'' @ bucket_used uuid4 bucket @ ''\<newline>Region name:\<newline>''
                      @ fmt (region_used default_region region)], cloud := c\<rparr>)))"
  by (simp add: create_bucket_unfold)

theorem create_bucket_client_error_witness:
  "create_bucket sample_s3 ''0f8fad5b'' None (Some ''builds'') (Some ''eu-west-1'') project =
     ([(''builds'', Some ''eu-west-1'')],
      Inr (project\<lparr>stdout := [''BucketAlreadyExists''], cloud := [''builds'']\<rparr>))
   \<and> create_bucket sample_s3 ''0f8fad5b'' None (Some ''logs'') (Some ''eu-west-1'') project =
     ([(''logs'', Some ''eu-west-1'')],
      Inr (project\<lparr>stdout := [''Bucket name:\<newline>logs\<newline>Region name:\<newline>eu-west-1''],
                   cloud := [''builds'', ''logs'']\<rparr>))"
  using create_bucket_client_error [of sample_s3 "''0f8fad5b''" "Some ''builds''" None
      "Some ''eu-west-1''" project "''BucketAlreadyExists''" "[''builds'']"]
    create_bucket_client_error [of sample_s3 "''0f8fad5b''" "Some ''logs''" None
      "Some ''eu-west-1''" project "''BucketAlreadyExists''" "[''builds'', ''logs'']"]
  by (simp add: bucket_used_def region_used_def notices_def falsy_def fmt_def sample_s3_def
      project_def)


text \<open>
  C8, as the code has it. Once the descriptor is loaded, \<^verbatim>\<open>build\<close>, \<^verbatim>\<open>package\<close>,
  \<^verbatim>\<open>validate\<close>, \<^verbatim>\<open>delete\<close> and \<^verbatim>\<open>describe\<close> each make the one call of their
  name (\<^verbatim>\<open>build\<close> passing \<^verbatim>\<open>no_pip\<close> on) and end as that call ends. \<^verbatim>\<open>deploy\<close>
  calls \<^verbatim>\<open>deploy\<close> and, when that returns, \<^verbatim>\<open>describe\<close>; \<^verbatim>\<open>all\<close> calls
  \<^verbatim>\<open>build\<close>, \<^verbatim>\<open>package\<close>, \<^verbatim>\<open>deploy\<close> and \<^verbatim>\<open>describe\<close> in that order and
  stops at the first that raises.
\<close>

theorem commands_delegate:
  assumes "get_config safe_load w = Inr config"
  shows "build m safe_load no_pip w = ([Build no_pip], m (Build no_pip) config w)
         \<and> package m safe_load w = ([Package], m Package config w)
         \<and> validate m safe_load w = ([Validate], m Validate config w)
         \<and> delete m safe_load w = ([Delete], m Delete config w)
         \<and> describe m safe_load w = ([Describe], m Describe config w)
         \<and> deploy m safe_load w =
             (case m Deploy config w of
                Inl e \<Rightarrow> ([Deploy], Inl e)
              | Inr (c1, w1) \<Rightarrow> ([Deploy, Describe], m Describe c1 w1))
         \<and> all_cmd m safe_load no_pip w =
             (case m (Build no_pip) config w of
                Inl e \<Rightarrow> ([Build no_pip], Inl e)
              | Inr (c1, w1) \<Rightarrow>
                  (case m Package c1 w1 of
                     Inl e \<Rightarrow> ([Build no_pip, Package], Inl e)
                   | Inr (c2, w2) \<Rightarrow>
                       (case m Deploy c2 w2 of
                          Inl e \<Rightarrow> ([Build no_pip, Package, Deploy], Inl e)
                        | Inr (c3, w3) \<Rightarrow>
                            ([Build no_pip, Package, Deploy, Describe], m Describe c3 w3))))"
proof -
  have l: "load_config safe_load w = ([], Inr (config, w))"
    using assms by (rule load_config_loaded)
  show ?thesis
    by (simp add: l command_defs invoke_def split: sum.splits prod.splits)
qed

theorem commands_delegate_witness:
  "build returns sample_safe_load True demo_project = ([Build True], Inr (demo_config, demo_project))
   \<and> deploy returns sample_safe_load demo_project =
       ([Deploy, Describe], Inr (demo_config, demo_project))
   \<and> all_cmd returns sample_safe_load True demo_project =
       ([Build True, Package, Deploy, Describe], Inr (demo_config, demo_project))"
  using commands_delegate [OF get_config_demo, of returns True]
  by (simp add: returns_def)

text \<open>
  C8 as the spec words it fails for \<^verbatim>\<open>deploy\<close>: on a project with a sound
  descriptor the command calls \<^verbatim>\<open>deploy\<close> and then \<^verbatim>\<open>describe\<close>, not
  \<^verbatim>\<open>deploy\<close> alone.
\<close>

theorem deploy_also_describes:
  "fst (deploy returns sample_safe_load demo_project) = [Deploy, Describe]
   \<and> fst (deploy returns sample_safe_load demo_project) \<noteq> [Deploy]"
  by (simp add: deploy_def load_config_loaded [OF get_config_demo] invoke_loaded returns_def)

end
